theory Spec2Isabelle
  imports Complex_Main
begin

section \<open>Canonical correlation analysis from covariance (meegkit/utils/cca.py)\<close>

text \<open>
  The module computes CCA transforms from a covariance matrix. Its scalars are IEEE
  doubles; here they are idealised as the reals, so rounding, NaN and the infinities are
  not represented. The places where numpy would produce NaN or an infinity without
  raising (division by a zero maximum, a power of a negative base) are marked where they
  occur. Exceptions are values of the type \<open>error\<close>; every fallible operation returns
  \<open>error + 'a\<close> with \<open>Inl\<close> the exception raised.
\<close>

subsection \<open>Exceptions\<close>

datatype error =
    AttributeError string
  | RuntimeError string
  | IndexError
  | ValueError
  | TypeError
  | LinAlgError

subsection \<open>numpy arrays\<close>

text \<open>
  An \<open>ndarray\<close> is its shape tuple and its elements in row-major (C) order.
\<close>

datatype ndarray = NdArray (shape: "nat list") (flat: "real list")

definition ndim :: "ndarray \<Rightarrow> nat" where
  "ndim a = length (shape a)"

definition nrows :: "ndarray \<Rightarrow> nat" where
  "nrows a = shape a ! 0"

definition ncols :: "ndarray \<Rightarrow> nat" where
  "ncols a = shape a ! 1"

definition get1 :: "ndarray \<Rightarrow> nat \<Rightarrow> real" where
  "get1 a i = flat a ! i"

definition get2 :: "ndarray \<Rightarrow> nat \<Rightarrow> nat \<Rightarrow> real" where
  "get2 a i j = flat a ! (i * (shape a ! 1) + j)"

definition get3 :: "ndarray \<Rightarrow> nat \<Rightarrow> nat \<Rightarrow> nat \<Rightarrow> real" where
  "get3 a i j k = flat a ! ((i * (shape a ! 1) + j) * (shape a ! 2) + k)"

definition mk1 :: "nat \<Rightarrow> (nat \<Rightarrow> real) \<Rightarrow> ndarray" where
  "mk1 n f = NdArray [n] (map f [0..<n])"

definition mk2 :: "nat \<Rightarrow> nat \<Rightarrow> (nat \<Rightarrow> nat \<Rightarrow> real) \<Rightarrow> ndarray" where
  "mk2 r c f = NdArray [r, c] (concat (map (\<lambda>i. map (f i) [0..<c]) [0..<r]))"

definition mk3 :: "nat \<Rightarrow> nat \<Rightarrow> nat \<Rightarrow> (nat \<Rightarrow> nat \<Rightarrow> nat \<Rightarrow> real) \<Rightarrow> ndarray" where
  "mk3 p q r f =
     NdArray [p, q, r]
       (concat (map (\<lambda>i. concat (map (\<lambda>j. map (f i j) [0..<r]) [0..<q])) [0..<p]))"

text \<open>\<^verbatim>\<open>np.zeros((r, c))\<close>, \<^verbatim>\<open>np.zeros((p, q, r))\<close>.\<close>

definition np_zeros2 :: "nat \<Rightarrow> nat \<Rightarrow> ndarray" where
  "np_zeros2 r c = mk2 r c (\<lambda>i j. 0)"

definition np_zeros3 :: "nat \<Rightarrow> nat \<Rightarrow> nat \<Rightarrow> ndarray" where
  "np_zeros3 p q r = mk3 p q r (\<lambda>i j k. 0)"

text \<open>
  A slice bound \<open>i\<close> of Python on an axis of length \<open>n\<close>: a negative bound counts from
  the end, and every bound is clipped to the axis.
\<close>

definition slice_idx :: "nat \<Rightarrow> int \<Rightarrow> nat" where
  "slice_idx n i = (if i < 0 then nat (max 0 (int n + i)) else min (nat i) n)"

text \<open>\<open>a[r0:r1, c0:c1]\<close> for bounds already clipped, and \<open>a[lo:hi]\<close> on one axis.\<close>

definition slice2 :: "ndarray \<Rightarrow> nat \<Rightarrow> nat \<Rightarrow> nat \<Rightarrow> nat \<Rightarrow> ndarray" where
  "slice2 a r0 r1 c0 c1 = mk2 (r1 - r0) (c1 - c0) (\<lambda>i j. get2 a (r0 + i) (c0 + j))"

definition slice1 :: "ndarray \<Rightarrow> nat \<Rightarrow> nat \<Rightarrow> ndarray" where
  "slice1 a lo hi = mk1 (hi - lo) (\<lambda>i. get1 a (lo + i))"

text \<open>\<open>C[:, :, k]\<close>: page \<open>k\<close> of a three-dimensional array.\<close>

definition page :: "ndarray \<Rightarrow> nat \<Rightarrow> ndarray" where
  "page c k = mk2 (shape c ! 0) (shape c ! 1) (\<lambda>i j. get3 c i j k)"

text \<open>\<open>a.T\<close> of a two-dimensional array.\<close>

definition transpose2 :: "ndarray \<Rightarrow> ndarray" where
  "transpose2 a = mk2 (ncols a) (nrows a) (\<lambda>i j. get2 a j i)"

text \<open>
  \<open>np.dot(a, b)\<close> of two-dimensional arrays raises ValueError when the inner dimensions
  differ.
\<close>

definition np_dot :: "ndarray \<Rightarrow> ndarray \<Rightarrow> error + ndarray" where
  "np_dot a b =
     (if ncols a \<noteq> nrows b then Inl ValueError
      else Inr (mk2 (nrows a) (ncols b)
                  (\<lambda>i j. sum_list (map (\<lambda>k. get2 a i k * get2 b k j) [0..<ncols a]))))"

text \<open>An elementwise operation keeps the shape.\<close>

definition map_array :: "(real \<Rightarrow> real) \<Rightarrow> ndarray \<Rightarrow> ndarray" where
  "map_array f a = NdArray (shape a) (map f (flat a))"

text \<open>\<open>np.diag(v)\<close> of a one-dimensional array.\<close>

definition np_diag :: "ndarray \<Rightarrow> ndarray" where
  "np_diag v = mk2 (shape v ! 0) (shape v ! 0) (\<lambda>i j. if i = j then get1 v i else 0)"

text \<open>
  \<open>np.argsort(d)\<close>: the indices that sort \<open>d\<close> ascending. numpy's default sort is not
  stable in general; for the short arrays met here it is an insertion sort, which keeps
  equal keys in index order, as \<open>sort_key\<close> does.
\<close>

definition argsort :: "real list \<Rightarrow> nat list" where
  "argsort xs = sort_key (\<lambda>k. xs ! k) [0..<length xs]"

text \<open>
  \<open>d[idx]\<close> and \<open>V[:, idx]\<close> for an index list; an index outside the axis raises
  IndexError.
\<close>

definition take_idx :: "ndarray \<Rightarrow> nat list \<Rightarrow> error + ndarray" where
  "take_idx d idx =
     (if list_ex (\<lambda>k. shape d ! 0 \<le> k) idx then Inl IndexError
      else Inr (mk1 (length idx) (\<lambda>j. get1 d (idx ! j))))"

definition take_cols :: "ndarray \<Rightarrow> nat list \<Rightarrow> error + ndarray" where
  "take_cols V idx =
     (if list_ex (\<lambda>k. ncols V \<le> k) idx then Inl IndexError
      else Inr (mk2 (nrows V) (length idx) (\<lambda>i j. get2 V i (idx ! j))))"

text \<open>
  \<open>d[keep]\<close> and \<open>V[:, keep]\<close> for a boolean mask: the positions where the mask holds.
\<close>

definition mask_idx :: "bool list \<Rightarrow> nat list" where
  "mask_idx keep = filter (\<lambda>k. keep ! k) [0..<length keep]"

text \<open>\<open>np.max(d)\<close> of a non-empty one-dimensional array.\<close>

definition np_max :: "real list \<Rightarrow> real" where
  "np_max xs = fold max (tl xs) (hd xs)"

text \<open>
  Assignment into a slice broadcasts the source: on every axis the source's length is
  the target's or 1, otherwise numpy raises ValueError.
\<close>

definition broadcast_ok :: "nat \<Rightarrow> nat \<Rightarrow> bool" where
  "broadcast_ok src tgt = (src = tgt \<or> src = 1)"

text \<open>
  \<open>W[r0:, c0:] = src\<close> into an array allocated so that the target region has the
  shape of \<open>src\<close> (lines 105 to 107 size \<open>W\<close> by the sum of the two shapes).
\<close>

definition assign_block :: "ndarray \<Rightarrow> nat \<Rightarrow> nat \<Rightarrow> ndarray \<Rightarrow> ndarray" where
  "assign_block W r0 c0 src =
     mk2 (nrows W) (ncols W)
       (\<lambda>i j. if r0 \<le> i \<and> i < r0 + nrows src \<and> c0 \<le> j \<and> j < c0 + ncols src
               then get2 src (i - r0) (j - c0) else get2 W i j)"

text \<open>\<open>A[:AA.shape[0], :AA.shape[1], k] = AA\<close> (lines 93 and 94).\<close>

definition assign_page :: "ndarray \<Rightarrow> nat \<Rightarrow> ndarray \<Rightarrow> error + ndarray" where
  "assign_page A k AA =
     (let a0 = shape AA ! 0; a1 = shape AA ! 1;
          t0 = min a0 (shape A ! 0); t1 = min a1 (shape A ! 1)
      in if \<not> (broadcast_ok a0 t0 \<and> broadcast_ok a1 t1) then Inl ValueError
         else Inr (mk3 (shape A ! 0) (shape A ! 1) (shape A ! 2)
                    (\<lambda>i j l. if l = k \<and> i < t0 \<and> j < t1
                              then get2 AA (if a0 = t0 then i else 0) (if a1 = t1 then j else 0)
                              else get3 A i j l)))"

text \<open>\<open>R[:, k] = RR\<close> (line 95): the target is the whole column \<open>k\<close>.\<close>

definition assign_col :: "ndarray \<Rightarrow> nat \<Rightarrow> ndarray \<Rightarrow> error + ndarray" where
  "assign_col R k RR =
     (let n = shape R ! 0; l = shape RR ! 0
      in if \<not> broadcast_ok l n then Inl ValueError
         else Inr (mk2 n (shape R ! 1)
                    (\<lambda>i j. if j = k then get1 RR (if l = n then i else 0) else get2 R i j)))"

subsection \<open>Whitening\<close>

text \<open>
  \<open>(d / np.max(d)) > thresh\<close>, elementwise. When the maximum is zero the quotient is
  NaN or an infinity of the sign of \<open>-x\<close>, and the comparison is false (line 155).
\<close>

definition keep_ratio :: "real \<Rightarrow> real \<Rightarrow> real \<Rightarrow> bool" where
  "keep_ratio x dmax thresh = (dmax \<noteq> 0 \<and> x / dmax > thresh)"

text \<open>
  \<open>whiten_nt\<close> (lines 143 to 166). \<open>linalg.eigh\<close> is a parameter: it returns the
  eigenvalues and the matrix of eigenvectors, or raises. Its results are real, so
  \<open>np.real\<close> is the identity. \<open>np.max\<close> of an empty array raises ValueError. The
  retained eigenvalues of a covariance matrix are positive. Where an eigenvalue that
  is zero or negative is retained (a negative threshold, a matrix with no positive
  eigenvalue), numpy computes an infinity or NaN without raising; the reals have
  neither, and the shape of the result is the same.
\<close>

definition whiten_nt ::
  "(ndarray \<Rightarrow> error + ndarray \<times> ndarray) \<Rightarrow> ndarray \<Rightarrow> real \<Rightarrow> error + ndarray" where
  "whiten_nt eigh C thresh =
     (case eigh C of Inl e \<Rightarrow> Inl e
      | Inr (d0, V0) \<Rightarrow>
        (let idx = rev (argsort (flat d0)) in
         (case take_idx d0 idx of Inl e \<Rightarrow> Inl e
          | Inr d1 \<Rightarrow>
            (case take_cols V0 idx of Inl e \<Rightarrow> Inl e
             | Inr V1 \<Rightarrow>
               if flat d1 = [] then Inl ValueError
               else
                 (let dmax = np_max (flat d1);
                      keep = map (\<lambda>x. keep_ratio x dmax thresh) (flat d1)
                  in (case take_idx d1 (mask_idx keep) of Inl e \<Rightarrow> Inl e
                      | Inr d2 \<Rightarrow>
                        (case take_cols V1 (mask_idx keep) of Inl e \<Rightarrow> Inl e
                         | Inr V2 \<Rightarrow>
                           (let d3 = map_array (\<lambda>x. x powr (1 - thresh)) d2;
                                D = np_diag (map_array (\<lambda>x. sqrt (1 / x)) d3)
                            in np_dot V2 D))))))))"

text \<open>
  \<open>whiten_zca\<close> (lines 181 to 203), with \<open>np.linalg.svd\<close> as a parameter. The default
  of \<open>thresh\<close> is \<open>None\<close>, and \<open>S + None\<close> raises TypeError.
\<close>

definition whiten_zca ::
  "(ndarray \<Rightarrow> error + ndarray \<times> ndarray \<times> ndarray) \<Rightarrow> ndarray \<Rightarrow> real option
     \<Rightarrow> error + ndarray" where
  "whiten_zca svd C thresh =
     (case svd C of Inl e \<Rightarrow> Inl e
      | Inr (U, S, V) \<Rightarrow>
        (case thresh of None \<Rightarrow> Inl TypeError
         | Some t \<Rightarrow>
           (let D = np_diag (map_array (\<lambda>s. 1 / sqrt (s + t)) S)
            in (case np_dot U D of Inl e \<Rightarrow> Inl e
                | Inr UD \<Rightarrow> np_dot UD (transpose2 U)))))"

subsection \<open>The CCA of one covariance matrix\<close>

text \<open>
  Lines 99 to 120 of \<open>nt_cca\<close>: the two-dimensional case. \<open>pca\<close> (meegkit.utils.denoise)
  is a parameter returning the eigenvectors and the eigenvalues.
\<close>

definition nt_cca_2d ::
  "(ndarray \<Rightarrow> error + ndarray \<times> ndarray) \<Rightarrow> (ndarray \<Rightarrow> error + ndarray \<times> ndarray)
     \<Rightarrow> ndarray \<Rightarrow> int \<Rightarrow> real \<Rightarrow> error + ndarray \<times> ndarray \<times> ndarray" where
  "nt_cca_2d eigh pca C m thresh =
     (let r = slice_idx (nrows C) m; c = slice_idx (ncols C) m in
      (case whiten_nt eigh (slice2 C 0 r 0 c) thresh of Inl e \<Rightarrow> Inl e
       | Inr Cxw \<Rightarrow>
         (case whiten_nt eigh (slice2 C r (nrows C) c (ncols C)) thresh of Inl e \<Rightarrow> Inl e
          | Inr Cyw \<Rightarrow>
            (let W0 = np_zeros2 (nrows Cxw + nrows Cyw) (ncols Cxw + ncols Cyw);
                 W1 = assign_block W0 0 0 Cxw;
                 W = assign_block W1 (nrows Cxw) (ncols Cxw) Cyw
             in (case np_dot (transpose2 W) C of Inl e \<Rightarrow> Inl e
                 | Inr WtC \<Rightarrow>
                   (case np_dot WtC W of Inl e \<Rightarrow> Inl e
                    | Inr C1 \<Rightarrow>
                      (let N = min (ncols Cxw) (ncols Cyw) in
                       (case pca C1 of Inl e \<Rightarrow> Inl e
                        | Inr (V, d) \<Rightarrow>
                          (let rx = min (ncols Cxw) (nrows V); cn = min N (ncols V) in
                           (case np_dot Cxw (slice2 V 0 rx 0 cn) of Inl e \<Rightarrow> Inl e
                            | Inr A0 \<Rightarrow>
                              (case np_dot Cyw (slice2 V rx (nrows V) 0 cn) of
                                 Inl e \<Rightarrow> Inl e
                               | Inr B0 \<Rightarrow>
                                 Inr (map_array (\<lambda>x. x * sqrt 2) A0,
                                      map_array (\<lambda>x. x * sqrt 2) B0,
                                      map_array (\<lambda>x. x - 1)
                                        (slice1 d 0 (min N (shape d ! 0)))))))))))))))"

subsection \<open>The entry point\<close>

text \<open>
  \<open>lags\<close> is documented as an array, and the third usage of the docstring passes a
  list. The truth value of a list is its non-emptiness; that of an array is the truth
  value of its only element, false when it is empty, and a ValueError when it has
  several elements.
\<close>

datatype lags_arg = LagsList "int list" | LagsArray "int list"

definition truthy_lags :: "lags_arg option \<Rightarrow> error + bool" where
  "truthy_lags l =
     (case l of None \<Rightarrow> Inr False
      | Some (LagsList xs) \<Rightarrow> Inr (xs \<noteq> [])
      | Some (LagsArray xs) \<Rightarrow>
          (case xs of [] \<Rightarrow> Inr False
           | [x] \<Rightarrow> Inr (x \<noteq> 0)
           | _ \<Rightarrow> Inl ValueError))"

text \<open>
  The functions \<open>nt_cca\<close> calls and the module does not define: \<open>linalg.eigh\<close>
  (scipy), \<open>pca\<close>, \<open>_check_shifts\<close> and \<open>cov_lags\<close> (other modules of meegkit). Of the
  triple \<open>cov_lags\<close> returns, the caller keeps the covariance and the split \<open>m\<close>.
\<close>

record collaborators =
  linalg_eigh :: "ndarray \<Rightarrow> error + ndarray \<times> ndarray"
  denoise_pca :: "ndarray \<Rightarrow> error + ndarray \<times> ndarray"
  check_shifts :: "lags_arg option \<Rightarrow> error + lags_arg \<times> nat"
  cov_lags :: "ndarray \<Rightarrow> ndarray \<Rightarrow> lags_arg \<Rightarrow> error + ndarray \<times> int"

type_synonym cca_result = "error + ndarray \<times> ndarray \<times> ndarray"

text \<open>
  The body of the loop of lines 91 to 95, given the results of the recursive calls in
  page order: the first exception, of a call or of an assignment, ends the loop.
\<close>

fun assemble :: "nat \<Rightarrow> cca_result list \<Rightarrow> ndarray \<times> ndarray \<times> ndarray \<Rightarrow> cca_result" where
  "assemble k [] ABR = Inr ABR"
| "assemble k (res # rest) (A, B, R) =
     (case res of Inl e \<Rightarrow> Inl e
      | Inr (AA, BB, RR) \<Rightarrow>
        (case assign_page A k AA of Inl e \<Rightarrow> Inl e
         | Inr A1 \<Rightarrow>
           (case assign_page B k BB of Inl e \<Rightarrow> Inl e
            | Inr B1 \<Rightarrow>
              (case assign_col R k RR of Inl e \<Rightarrow> Inl e
               | Inr R1 \<Rightarrow> assemble (Suc k) rest (A1, B1, R1)))))"

text \<open>
  \<open>nt_cca\<close> (lines 9 to 120). \<open>C.shape[1]\<close> of an array of fewer than two dimensions
  raises IndexError; \<open>np.zeros\<close> with a negative dimension raises ValueError. At line
  79 \<open>X\<close> and \<open>Y\<close> are \<open>None\<close>, so \<open>any((X, Y, lags))\<close> is the truth value of \<open>lags\<close>.
\<close>

function nt_cca ::
  "collaborators \<Rightarrow> ndarray option \<Rightarrow> ndarray option \<Rightarrow> lags_arg option
     \<Rightarrow> ndarray option \<Rightarrow> int option \<Rightarrow> real option \<Rightarrow> cca_result" where
  "nt_cca env X Y lags C m thresh0 =
     (let thresh = (case thresh0 of None \<Rightarrow> 1 / 10 ^ 12 | Some t \<Rightarrow> t) in
      if (X = None \<and> Y \<noteq> None) \<or> (Y = None \<and> X \<noteq> None)
      then Inl (AttributeError ''Either *both* X and Y should be defined, or C!'')
      else if X \<noteq> None then
        (case check_shifts env lags of Inl e \<Rightarrow> Inl e
         | Inr (lags1, n_lags) \<Rightarrow>
           (case cov_lags env (the X) (the Y) lags1 of Inl e \<Rightarrow> Inl e
            | Inr (C1, m1) \<Rightarrow> nt_cca env None None None (Some C1) (Some m1) (Some thresh)))
      else
        (case C of None \<Rightarrow> Inl (RuntimeError ''covariance matrix should be defined'')
         | Some c \<Rightarrow>
           (case m of None \<Rightarrow> Inl (RuntimeError ''m should be defined'')
            | Some mm \<Rightarrow>
              if ndim c < 2 then Inl IndexError
              else if shape c ! 0 \<noteq> shape c ! 1
              then Inl (RuntimeError ''covariance matrix should be square'')
              else
                (case truthy_lags lags of Inl e \<Rightarrow> Inl e
                 | Inr t \<Rightarrow>
                   if t then Inl (RuntimeError ''only covariance should be defined at this point'')
                   else if ndim c > 3 then Inl (RuntimeError ''covariance should be 3D at most'')
                   else if ndim c = 3 then
                     (let n_chans = shape c ! 0; n_lags = shape c ! 2;
                          N = min mm (int n_chans - mm)
                      in if mm < 0 \<or> N < 0 then Inl ValueError
                         else
                           assemble 0
                             (map (\<lambda>k. nt_cca env None None None (Some (page c k)) (Some mm)
                                          (Some thresh))
                                [0..<n_lags])
                             (np_zeros3 (nat mm) (nat N) n_lags,
                              np_zeros3 (nat (int n_chans - mm)) (nat N) n_lags,
                              np_zeros2 (nat N) n_lags))
                   else nt_cca_2d (linalg_eigh env) (denoise_pca env) c mm thresh))))"
  by pat_completeness auto
termination
  by (relation "measure (\<lambda>(env, X, Y, lags, C, m, thresh0).
        if X \<noteq> None then 2
        else (case C of None \<Rightarrow> 0 | Some c \<Rightarrow> if ndim c = 3 then 1 else 0))")
     (auto simp: page_def mk2_def ndim_def)

declare nt_cca.simps [simp del]

subsection \<open>The specification's description of the two-dimensional case\<close>

text \<open>
  These definitions follow the words of the specification, not the code, and are
  compared with the code below. Step 3 of the specification's algorithm: \<open>W\<close> is
  block-diagonal, with the two whitening transforms on the diagonal and zero
  off-diagonal blocks. Step 4: the covariance is projected to \<open>W.T @ C @ W\<close>.
\<close>

definition block_diag :: "ndarray \<Rightarrow> ndarray \<Rightarrow> nat \<Rightarrow> nat \<Rightarrow> real" where
  "block_diag P Q i j =
     (if i < nrows P \<and> j < ncols P then get2 P i j
      else if nrows P \<le> i \<and> ncols P \<le> j then get2 Q (i - nrows P) (j - ncols P)
      else 0)"

definition projected :: "ndarray \<Rightarrow> ndarray \<Rightarrow> ndarray \<Rightarrow> ndarray" where
  "projected P Q C =
     mk2 (ncols P + ncols Q) (ncols P + ncols Q)
       (\<lambda>a b. \<Sum>j<nrows P + nrows Q.
                 (\<Sum>i<nrows P + nrows Q. block_diag P Q i a * get2 C i j) * block_diag P Q j b)"

text \<open>
  Modelled from the spec: \<open>pca\<close> of meegkit.utils.denoise is not among the sources.
  Sections 4.3 and 6 of the specification give its contract: for a symmetric matrix it
  returns the matrix of eigenvectors and the sequence of eigenvalues. For a matrix of
  \<open>k\<close> rows these are \<open>k\<close> eigenvectors of length \<open>k\<close> and \<open>k\<close> eigenvalues.
\<close>

definition pca_contract :: "(ndarray \<Rightarrow> error + ndarray \<times> ndarray) \<Rightarrow> bool" where
  "pca_contract pca =
     (\<forall>M k. shape M = [k, k] \<longrightarrow> (\<exists>V d. pca M = Inr (V, d) \<and> shape V = [k, k] \<and> shape d = [k]))"

subsection \<open>Concrete collaborators for the worked examples\<close>

text \<open>
  An eigen-solver that is exact on diagonal matrices: the eigenvalues are the diagonal
  entries in ascending order (as \<open>linalg.eigh\<close> returns them) and the eigenvectors are
  the matching unit vectors. \<open>pca_diag\<close> returns the same pairs in descending order,
  eigenvectors first. The worked examples use covariance matrices whose blocks are
  diagonal, and never take the raw-data path, whose collaborators raise here.
\<close>

definition diag_of :: "ndarray \<Rightarrow> real list" where
  "diag_of M = map (\<lambda>i. get2 M i i) [0..<nrows M]"

definition eigh_diag :: "ndarray \<Rightarrow> error + ndarray \<times> ndarray" where
  "eigh_diag M =
     (let n = nrows M; dg = diag_of M; idx = argsort dg
      in Inr (mk1 n (\<lambda>j. dg ! (idx ! j)), mk2 n n (\<lambda>i j. if i = idx ! j then 1 else 0)))"

definition pca_diag :: "ndarray \<Rightarrow> error + ndarray \<times> ndarray" where
  "pca_diag M =
     (let n = nrows M; dg = diag_of M; idx = rev (argsort dg)
      in Inr (mk2 n n (\<lambda>i j. if i = idx ! j then 1 else 0), mk1 n (\<lambda>j. dg ! (idx ! j))))"

definition example_env :: collaborators where
  "example_env =
     \<lparr>linalg_eigh = eigh_diag, denoise_pca = pca_diag,
      check_shifts = (\<lambda>l. Inl ValueError), cov_lags = (\<lambda>X Y l. Inl ValueError)\<rparr>"

section \<open>Basic facts about arrays\<close>

subsection \<open>Shapes and entries\<close>

lemma shape_mk1 [simp]: "shape (mk1 n f) = [n]"
  by (simp add: mk1_def)

lemma flat_mk1 [simp]: "flat (mk1 n f) = map f [0..<n]"
  by (simp add: mk1_def)

lemma get1_mk1 [simp]: "i < n \<Longrightarrow> get1 (mk1 n f) i = f i"
  by (simp add: get1_def)

lemma shape_mk2 [simp]: "shape (mk2 r c f) = [r, c]"
  by (simp add: mk2_def)

lemma nrows_mk2 [simp]: "nrows (mk2 r c f) = r"
  by (simp add: nrows_def)

lemma ncols_mk2 [simp]: "ncols (mk2 r c f) = c"
  by (simp add: ncols_def)

lemma length_rows: "length (concat (map (\<lambda>i. map (g i) [0..<c]) [0..<r])) = r * c"
  by (induction r) simp_all

lemma nth_rows:
  "i < r \<Longrightarrow> j < c \<Longrightarrow> concat (map (\<lambda>i. map (g i) [0..<c]) [0..<r]) ! (i * c + j) = g i j"
proof (induction r)
  case 0
  then show ?case by simp
next
  case (Suc r)
  show ?case
  proof (cases "i < r")
    case True
    then have "Suc i * c \<le> r * c"
      by (intro mult_le_mono1) simp
    with Suc.prems(2) have "i * c + j < r * c"
      by simp
    with True Suc show ?thesis
      by (simp add: nth_append length_rows)
  next
    case False
    with Suc.prems have "i = r" by simp
    with Suc.prems show ?thesis
      by (simp add: nth_append length_rows)
  qed
qed

lemma get2_mk2 [simp]: "i < r \<Longrightarrow> j < c \<Longrightarrow> get2 (mk2 r c f) i j = f i j"
  by (simp add: get2_def mk2_def nth_rows)

lemma length_flat_mk2 [simp]: "length (flat (mk2 r c f)) = r * c"
  by (simp add: mk2_def length_rows)

lemma mk2_cong:
  assumes "\<And>i j. i < r \<Longrightarrow> j < c \<Longrightarrow> f i j = g i j"
  shows "mk2 r c f = mk2 r c g"
proof -
  have eq: "map (\<lambda>i. map (f i) [0..<c]) [0..<r] = map (\<lambda>i. map (g i) [0..<c]) [0..<r]"
    using assms by simp
  show ?thesis
    by (simp only: mk2_def eq)
qed

lemma shape_map_array [simp]: "shape (map_array f a) = shape a"
  by (simp add: map_array_def)

lemma nrows_map_array [simp]: "nrows (map_array f a) = nrows a"
  by (simp add: nrows_def)

lemma ncols_map_array [simp]: "ncols (map_array f a) = ncols a"
  by (simp add: ncols_def)

subsection \<open>Sorting, masks and sums\<close>

lemma length_argsort [simp]: "length (argsort xs) = length xs"
  by (simp add: argsort_def)

lemma set_argsort [simp]: "set (argsort xs) = {0..<length xs}"
  by (simp add: argsort_def)

lemma distinct_argsort [simp]: "distinct (argsort xs)"
  by (simp add: argsort_def)

lemma sorted_argsort: "sorted (map (\<lambda>k. xs ! k) (argsort xs))"
  by (simp add: argsort_def sorted_sort_key)

lemma map_nth_positions: "map (\<lambda>j. f (p ! j)) [0..<length p] = map f p"
proof -
  have "map (\<lambda>j. f (p ! j)) [0..<length p] = map f (map (\<lambda>j. p ! j) [0..<length p])"
    by simp
  then show ?thesis
    by (simp only: map_nth)
qed

lemma filter_positions:
  "map (\<lambda>j. p ! j) (filter (\<lambda>j. P (p ! j)) [0..<length p]) = filter P p"
proof -
  have "filter P (map (\<lambda>j. p ! j) [0..<length p]) =
        map (\<lambda>j. p ! j) (filter (P \<circ> (\<lambda>j. p ! j)) [0..<length p])"
    by (rule filter_map)
  then show ?thesis
    by (simp add: map_nth comp_def)
qed

lemma np_max_Cons: "np_max (a # as) = Max (set (a # as))"
proof -
  have "Max (set (a # as)) = fold max as a"
    by (rule Max.set_eq_fold)
  then show ?thesis
    by (simp only: np_max_def list.sel)
qed

lemma np_max_Max: "xs \<noteq> [] \<Longrightarrow> np_max xs = Max (set xs)"
  by (cases xs) (simp, simp only: np_max_Cons)

lemma sum_list_diag:
  "j < r \<Longrightarrow> sum_list (map (\<lambda>k. f k * (if k = j then s k else 0)) [0..<r]) = f j * (s j :: real)"
proof -
  have "(\<lambda>k. f k * (if k = j then s k else 0)) = (\<lambda>k. if k = j then f k * s k else 0)"
    by auto
  then have "sum_list (map (\<lambda>k. f k * (if k = j then s k else 0)) [0..<r]) =
        (\<Sum>k\<in>{0..<r}. if k = j then f k * s k else 0)"
    by (simp add: interv_sum_list_conv_sum_set_nat)
  also assume "j < r"
  then have "(\<Sum>k\<in>{0..<r}. if k = j then f k * s k else 0) = f j * s j"
    by (simp add: sum.delta)
  finally show ?thesis .
qed

lemma mk1_cong: "(\<And>i. i < n \<Longrightarrow> f i = g i) \<Longrightarrow> mk1 n f = mk1 n g"
  by (simp add: mk1_def)

subsection \<open>The result of whiten_nt\<close>

text \<open>
  When the eigen-solver returns \<open>n\<close> eigenvalues and a matrix of \<open>n\<close> columns,
  \<open>whiten_nt\<close> returns, and its column \<open>j\<close> is the eigenvector of the \<open>j\<close>-th retained
  eigenvalue in descending order, scaled.
\<close>

lemma take_idx_ok:
  "\<forall>k \<in> set idx. k < shape d ! 0 \<Longrightarrow>
   take_idx d idx = Inr (mk1 (length idx) (\<lambda>j. get1 d (idx ! j)))"
  by (auto simp: take_idx_def list_ex_iff)

lemma take_cols_ok:
  "\<forall>k \<in> set idx. k < ncols V \<Longrightarrow>
   take_cols V idx = Inr (mk2 (nrows V) (length idx) (\<lambda>i j. get2 V i (idx ! j)))"
  by (auto simp: take_cols_def list_ex_iff)

lemma get1_map_array: "i < length (flat a) \<Longrightarrow> get1 (map_array f a) i = f (get1 a i)"
  by (simp add: get1_def map_array_def)

lemma whiten_nt_result:
  fixes thresh :: real
  assumes eigh: "eigh C = Inr (d, V)"
    and d: "shape d = [n]" "length (flat d) = n"
    and V: "shape V = [r, n]"
    and n: "0 < n"
  defines "p \<equiv> rev (argsort (flat d))"
  defines "ks \<equiv> filter (\<lambda>k. keep_ratio (flat d ! k) (Max (set (flat d))) thresh) p"
  shows "whiten_nt eigh C thresh =
    Inr (mk2 r (length ks)
          (\<lambda>i j. get2 V i (ks ! j) * sqrt (1 / (flat d ! (ks ! j)) powr (1 - thresh))))"
proof -
  let ?P = "\<lambda>k. keep_ratio (flat d ! k) (Max (set (flat d))) thresh"
  have len_p: "length p = n" and set_p: "set p = {0..<n}"
    by (simp_all add: p_def d)
  define d1 where "d1 = mk1 n (\<lambda>j. get1 d (p ! j))"
  define V1 where "V1 = mk2 r n (\<lambda>i j. get2 V i (p ! j))"
  have t1: "take_idx d p = Inr d1"
    using take_idx_ok [of p d] by (simp add: set_p d d1_def len_p)
  have t2: "take_cols V p = Inr V1"
    using take_cols_ok [of p V] by (simp add: set_p V V1_def len_p ncols_def nrows_def)
  have flat_d1: "flat d1 = map (\<lambda>k. flat d ! k) p"
    using map_nth_positions [of "\<lambda>k. flat d ! k" p] by (simp add: d1_def get1_def len_p)
  have ne: "flat d1 \<noteq> []"
    using n len_p by (auto simp: flat_d1)
  have "set (flat d1) = (\<lambda>k. flat d ! k) ` {0..<length (flat d)}"
    by (simp add: flat_d1 set_p d)
  also have "\<dots> = set (flat d)"
    by (simp add: set_conv_nth [of "flat d"] atLeast0LessThan image_def) blast
  finally have dmax: "np_max (flat d1) = Max (set (flat d))"
    using ne by (simp add: np_max_Max)
  define kept where "kept = filter (\<lambda>j. ?P (p ! j)) [0..<n]"
  have mask: "mask_idx (map (\<lambda>x. keep_ratio x (Max (set (flat d))) thresh) (flat d1)) = kept"
    by (auto simp: mask_idx_def kept_def flat_d1 len_p intro!: filter_cong)
  have "map (\<lambda>j. p ! j) kept = ks"
    using filter_positions [of p ?P] by (simp add: kept_def ks_def len_p)
  then have len_k: "length kept = length ks"
    and nth_k: "\<And>j. j < length ks \<Longrightarrow> p ! (kept ! j) = ks ! j"
    by (auto simp: list_eq_iff_nth_eq)
  have kept_lt: "\<And>k. k \<in> set kept \<Longrightarrow> k < n"
    by (simp add: kept_def)
  define d2 where "d2 = mk1 (length ks) (\<lambda>j. flat d ! (ks ! j))"
  define V2 where "V2 = mk2 r (length ks) (\<lambda>i j. get2 V i (ks ! j))"
  have t3: "take_idx d1 kept = Inr d2"
  proof -
    have "take_idx d1 kept = Inr (mk1 (length kept) (\<lambda>j. get1 d1 (kept ! j)))"
      using kept_lt by (intro take_idx_ok) (simp add: d1_def)
    also have "mk1 (length kept) (\<lambda>j. get1 d1 (kept ! j)) = d2"
      unfolding d2_def len_k
      by (rule mk1_cong) (simp add: get1_def flat_d1 len_p kept_lt len_k nth_k)
    finally show ?thesis .
  qed
  have t4: "take_cols V1 kept = Inr V2"
  proof -
    have "take_cols V1 kept = Inr (mk2 (nrows V1) (length kept) (\<lambda>i j. get2 V1 i (kept ! j)))"
      using kept_lt by (intro take_cols_ok) (simp add: V1_def)
    also have "mk2 (nrows V1) (length kept) (\<lambda>i j. get2 V1 i (kept ! j)) = V2"
      unfolding V2_def len_k V1_def nrows_mk2
      by (rule mk2_cong) (simp add: kept_lt len_k nth_k)
    finally show ?thesis .
  qed
  let ?s = "\<lambda>j. sqrt (1 / (flat d ! (ks ! j)) powr (1 - thresh))"
  define D where
    "D = np_diag (map_array (\<lambda>x. sqrt (1 / x)) (map_array (\<lambda>x. x powr (1 - thresh)) d2))"
  have D: "D = mk2 (length ks) (length ks) (\<lambda>k j. if k = j then ?s k else 0)"
    unfolding D_def np_diag_def
    by (simp add: d2_def) (rule mk2_cong, simp add: get1_def map_array_def d2_def)
  have "np_dot V2 D =
      Inr (mk2 r (length ks)
            (\<lambda>i j. sum_list (map (\<lambda>k. get2 V2 i k * get2 D k j) [0..<length ks])))"
    by (simp add: np_dot_def V2_def D)
  also have "mk2 r (length ks)
            (\<lambda>i j. sum_list (map (\<lambda>k. get2 V2 i k * get2 D k j) [0..<length ks])) =
      mk2 r (length ks) (\<lambda>i j. get2 V i (ks ! j) * ?s j)"
  proof (rule mk2_cong)
    fix i j
    assume ij: "i < r" "j < length ks"
    have "map (\<lambda>k. get2 V2 i k * get2 D k j) [0..<length ks] =
          map (\<lambda>k. get2 V i (ks ! k) * (if k = j then ?s k else 0)) [0..<length ks]"
      using ij by (simp add: V2_def D)
    then show "sum_list (map (\<lambda>k. get2 V2 i k * get2 D k j) [0..<length ks]) =
        get2 V i (ks ! j) * ?s j"
      using ij(2) by (simp only: sum_list_diag)
  qed
  finally have dot: "np_dot V2 D = Inr (mk2 r (length ks) (\<lambda>i j. get2 V i (ks ! j) * ?s j))" .
  show ?thesis
    unfolding whiten_nt_def
    by (simp add: eigh p_def [symmetric] t1 t2 ne dmax mask t3 t4 D_def [symmetric] dot)
qed

text \<open>
  The number of columns of the transform: at most the size of the matrix, all of them
  when no eigenvalue fails the threshold, and at least one when the largest eigenvalue
  is positive and the threshold is below 1.
\<close>

lemma whiten_nt_shape:
  fixes thresh :: real
  assumes eigh: "eigh C = Inr (d, V)"
    and d: "shape d = [n]" "length (flat d) = n"
    and V: "shape V = [r, n]"
    and n: "0 < n"
  shows "\<exists>W c. whiten_nt eigh C thresh = Inr W \<and> shape W = [r, c] \<and> c \<le> n \<and>
           (list_all (\<lambda>x. keep_ratio x (Max (set (flat d))) thresh) (flat d) \<longrightarrow> c = n) \<and>
           (0 < Max (set (flat d)) \<and> thresh < 1 \<longrightarrow> 1 \<le> c)"
proof -
  let ?K = "\<lambda>x. keep_ratio x (Max (set (flat d))) thresh"
  define p where "p = rev (argsort (flat d))"
  define ks where "ks = filter (\<lambda>k. ?K (flat d ! k)) p"
  have len_p: "length p = n" and set_p: "set p = {0..<n}"
    by (simp_all add: p_def d)
  have W: "whiten_nt eigh C thresh =
      Inr (mk2 r (length ks)
            (\<lambda>i j. get2 V i (ks ! j) * sqrt (1 / (flat d ! (ks ! j)) powr (1 - thresh))))"
    unfolding ks_def p_def using eigh d V n by (rule whiten_nt_result)
  have le: "length ks \<le> n"
    using length_filter_le [of "\<lambda>k. ?K (flat d ! k)" p] by (simp add: ks_def len_p)
  have full: "length ks = n" if "list_all ?K (flat d)"
  proof -
    have "\<forall>k \<in> set p. ?K (flat d ! k)"
      using that by (simp add: set_p list_all_iff d)
    then have "ks = p"
      by (simp add: ks_def)
    then show ?thesis
      by (simp add: len_p)
  qed
  have lead: "1 \<le> length ks" if pos: "0 < Max (set (flat d))" and t: "thresh < 1"
  proof -
    have "flat d \<noteq> []"
      using n d by auto
    then have "Max (set (flat d)) \<in> set (flat d)"
      by (intro Max_in) simp_all
    then obtain k where k: "k < n" "flat d ! k = Max (set (flat d))"
      by (auto simp: in_set_conv_nth d)
    have "?K (flat d ! k)"
      using pos t by (simp add: k keep_ratio_def)
    with k(1) have "k \<in> set ks"
      by (simp add: ks_def set_p)
    then have "ks \<noteq> []"
      by auto
    then show ?thesis
      by (cases ks) simp_all
  qed
  show ?thesis
    using W le full lead by (intro exI [of _ "length ks"] exI conjI impI) auto
qed

subsection \<open>The result of the two-dimensional case\<close>

lemma map_array_mk2: "map_array f (mk2 r c g) = mk2 r c (\<lambda>i j. f (g i j))"
  by (simp add: map_array_def mk2_def map_concat comp_def)

lemma map_array_mk1: "map_array f (mk1 n g) = mk1 n (\<lambda>i. f (g i))"
  by (simp add: map_array_def mk1_def)

lemma sum_list_upt_sum: "sum_list (map f [0..<n]) = (\<Sum>k<n. f k)"
  by (simp add: interv_sum_list_conv_sum_set_nat atLeast0LessThan)

text \<open>
  Lines 105 to 107 build the block-diagonal matrix of the specification, and line 108
  projects the covariance as the specification says.
\<close>

lemma assemble_W:
  assumes "shape P = [rx, cx]" "shape Q = [ry, cy]"
  shows "assign_block (assign_block (np_zeros2 (nrows P + nrows Q) (ncols P + ncols Q)) 0 0 P)
           (nrows P) (ncols P) Q =
         mk2 (rx + ry) (cx + cy) (block_diag P Q)"
proof -
  have s: "nrows P = rx" "ncols P = cx" "nrows Q = ry" "ncols Q = cy"
    using assms by (simp_all add: nrows_def ncols_def)
  show ?thesis
    unfolding assign_block_def np_zeros2_def s nrows_mk2 ncols_mk2
    by (rule mk2_cong) (auto simp: block_diag_def s)
qed

lemma project_W:
  assumes P: "shape P = [rx, cx]" and Q: "shape Q = [ry, cy]" and C: "shape C = [rx + ry, rx + ry]"
  defines "W \<equiv> mk2 (rx + ry) (cx + cy) (block_diag P Q)"
  shows "\<exists>WtC. np_dot (transpose2 W) C = Inr WtC \<and> np_dot WtC W = Inr (projected P Q C)"
proof -
  have s: "nrows P = rx" "ncols P = cx" "nrows Q = ry" "ncols Q = cy"
    "nrows C = rx + ry" "ncols C = rx + ry"
    using assms by (simp_all add: nrows_def ncols_def)
  define WtC where "WtC = mk2 (cx + cy) (rx + ry)
      (\<lambda>a j. \<Sum>i<rx + ry. block_diag P Q i a * get2 C i j)"
  have 1: "np_dot (transpose2 W) C = Inr WtC"
    unfolding np_dot_def transpose2_def W_def WtC_def
    by (simp add: s sum_list_upt_sum) (rule mk2_cong, simp)
  have 2: "np_dot WtC W = Inr (projected P Q C)"
    unfolding np_dot_def W_def WtC_def projected_def
    by (simp add: s sum_list_upt_sum) (rule mk2_cong, simp)
  from 1 2 show ?thesis by blast
qed

lemma np_dot_slice:
  assumes "shape P = [r, c]"
  shows "np_dot P (slice2 V c0 (c0 + c) 0 cn) =
         Inr (mk2 r cn (\<lambda>i j. \<Sum>k<c. get2 P i k * get2 V (c0 + k) j))"
proof -
  have s: "nrows P = r" "ncols P = c"
    using assms by (simp_all add: nrows_def ncols_def)
  show ?thesis
    unfolding np_dot_def slice2_def
    by (simp add: s sum_list_upt_sum) (rule mk2_cong, simp)
qed

lemma nt_cca_2d_result:
  assumes C: "shape C = [n, n]"
    and wx: "whiten_nt eigh (slice2 C 0 (slice_idx n m) 0 (slice_idx n m)) thresh = Inr Cxw"
    and wy: "whiten_nt eigh (slice2 C (slice_idx n m) n (slice_idx n m) n) thresh = Inr Cyw"
    and P: "shape Cxw = [rx, cx]" and Q: "shape Cyw = [ry, cy]" and n: "rx + ry = n"
    and pca: "pca (projected Cxw Cyw C) = Inr (V, d)"
    and V: "shape V = [cx + cy, cv]" and d: "shape d = [ld]"
  shows "nt_cca_2d eigh pca C m thresh =
     Inr (mk2 rx (min (min cx cy) cv) (\<lambda>i j. (\<Sum>k<cx. get2 Cxw i k * get2 V k j) * sqrt 2),
          mk2 ry (min (min cx cy) cv)
            (\<lambda>i j. (\<Sum>k<cy. get2 Cyw i k * get2 V (cx + k) j) * sqrt 2),
          mk1 (min (min cx cy) ld) (\<lambda>j. get1 d j - 1))"
proof -
  have s: "nrows C = n" "ncols C = n" "nrows Cxw = rx" "ncols Cxw = cx" "nrows Cyw = ry"
    "ncols Cyw = cy" "nrows V = cx + cy" "ncols V = cv" "shape d ! 0 = ld"
    using C P Q V d by (simp_all add: nrows_def ncols_def)
  have W: "assign_block (assign_block (np_zeros2 (rx + ry) (cx + cy)) 0 0 Cxw) rx cx Cyw =
      mk2 (rx + ry) (cx + cy) (block_diag Cxw Cyw)"
    using assemble_W [OF P Q] by (simp only: s)
  from project_W [OF P Q] C n obtain WtC
    where 1: "np_dot (transpose2 (mk2 (rx + ry) (cx + cy) (block_diag Cxw Cyw))) C = Inr WtC"
      and 2: "np_dot WtC (mk2 (rx + ry) (cx + cy) (block_diag Cxw Cyw)) = Inr (projected Cxw Cyw C)"
    by blast
  have A: "np_dot Cxw (slice2 V 0 cx 0 cn) =
      Inr (mk2 rx cn (\<lambda>i j. \<Sum>k<cx. get2 Cxw i k * get2 V k j))" for cn
    using np_dot_slice [OF P, where ?c0.0 = 0 and V = V and cn = cn] by simp
  have B: "np_dot Cyw (slice2 V cx (cx + cy) 0 cn) =
      Inr (mk2 ry cn (\<lambda>i j. \<Sum>k<cy. get2 Cyw i k * get2 V (cx + k) j))" for cn
    using np_dot_slice [OF Q, where ?c0.0 = cx and V = V and cn = cn] by simp
  show ?thesis
    unfolding nt_cca_2d_def
    by (simp add: s wx wy W 1 2 pca A B map_array_mk2 slice1_def map_array_mk1 Let_def)
qed

text \<open>
  The shapes of the result for a split strictly inside the matrix, when the eigen-solver
  returns a full decomposition of both diagonal blocks and \<open>pca\<close> keeps its contract.
\<close>

lemma nt_cca_2d_shapes:
  fixes thresh :: real
  assumes C: "shape C = [n, n]" and m: "0 < m" "m < int n"
    and ex: "eigh (slice2 C 0 (nat m) 0 (nat m)) = Inr (dx, Vx)"
    and dx: "shape dx = [nat m]" "length (flat dx) = nat m"
    and Vx: "shape Vx = [nat m, nat m]"
    and ey: "eigh (slice2 C (nat m) n (nat m) n) = Inr (dy, Vy)"
    and dy: "shape dy = [n - nat m]" "length (flat dy) = n - nat m"
    and Vy: "shape Vy = [n - nat m, n - nat m]"
    and pca: "pca_contract pca"
  shows "\<exists>Cxw Cyw cx cy A B R.
      whiten_nt eigh (slice2 C 0 (nat m) 0 (nat m)) thresh = Inr Cxw \<and>
      shape Cxw = [nat m, cx] \<and>
      whiten_nt eigh (slice2 C (nat m) n (nat m) n) thresh = Inr Cyw \<and>
      shape Cyw = [n - nat m, cy] \<and>
      cx \<le> nat m \<and> cy \<le> n - nat m \<and>
      (list_all (\<lambda>x. keep_ratio x (Max (set (flat dx))) thresh) (flat dx) \<longrightarrow> cx = nat m) \<and>
      (list_all (\<lambda>x. keep_ratio x (Max (set (flat dy))) thresh) (flat dy) \<longrightarrow> cy = n - nat m) \<and>
      (0 < Max (set (flat dx)) \<and> thresh < 1 \<longrightarrow> 1 \<le> cx) \<and>
      (0 < Max (set (flat dy)) \<and> thresh < 1 \<longrightarrow> 1 \<le> cy) \<and>
      nt_cca_2d eigh pca C m thresh = Inr (A, B, R) \<and>
      shape A = [nat m, min cx cy] \<and> shape B = [n - nat m, min cx cy] \<and>
      shape R = [min cx cy]"
proof -
  have idx: "slice_idx n m = nat m"
    using m by (simp add: slice_idx_def)
  have pos: "0 < nat m" "0 < n - nat m" and sum: "nat m + (n - nat m) = n"
    using m by simp_all
  from whiten_nt_shape [where eigh = eigh and C = "slice2 C 0 (nat m) 0 (nat m)" and thresh = thresh,
      OF ex dx Vx pos(1)] obtain Cxw cx where
    x: "whiten_nt eigh (slice2 C 0 (nat m) 0 (nat m)) thresh = Inr Cxw" "shape Cxw = [nat m, cx]"
      "cx \<le> nat m"
      "list_all (\<lambda>x. keep_ratio x (Max (set (flat dx))) thresh) (flat dx) \<longrightarrow> cx = nat m"
      "0 < Max (set (flat dx)) \<and> thresh < 1 \<longrightarrow> 1 \<le> cx"
    by blast
  from whiten_nt_shape [where eigh = eigh and C = "slice2 C (nat m) n (nat m) n" and thresh = thresh,
      OF ey dy Vy pos(2)] obtain Cyw cy where
    y: "whiten_nt eigh (slice2 C (nat m) n (nat m) n) thresh = Inr Cyw"
      "shape Cyw = [n - nat m, cy]" "cy \<le> n - nat m"
      "list_all (\<lambda>x. keep_ratio x (Max (set (flat dy))) thresh) (flat dy) \<longrightarrow> cy = n - nat m"
      "0 < Max (set (flat dy)) \<and> thresh < 1 \<longrightarrow> 1 \<le> cy"
    by blast
  have "shape (projected Cxw Cyw C) = [cx + cy, cx + cy]"
    using x(2) y(2) by (simp add: projected_def ncols_def)
  with pca obtain V d where
    p: "pca (projected Cxw Cyw C) = Inr (V, d)" "shape V = [cx + cy, cx + cy]"
      "shape d = [cx + cy]"
    unfolding pca_contract_def by blast
  define A where "A = mk2 (nat m) (min (min cx cy) (cx + cy))
            (\<lambda>i j. (\<Sum>k<cx. get2 Cxw i k * get2 V k j) * sqrt 2)"
  define B where "B = mk2 (n - nat m) (min (min cx cy) (cx + cy))
            (\<lambda>i j. (\<Sum>k<cy. get2 Cyw i k * get2 V (cx + k) j) * sqrt 2)"
  define R where "R = mk1 (min (min cx cy) (cx + cy)) (\<lambda>j. get1 d j - 1)"
  have wx: "whiten_nt eigh (slice2 C 0 (slice_idx n m) 0 (slice_idx n m)) thresh = Inr Cxw"
    and wy: "whiten_nt eigh (slice2 C (slice_idx n m) n (slice_idx n m) n) thresh = Inr Cyw"
    using x(1) y(1) by (simp_all only: idx)
  have res: "nt_cca_2d eigh pca C m thresh = Inr (A, B, R)"
    unfolding A_def B_def R_def
    using nt_cca_2d_result [where eigh = eigh and pca = pca and C = C and m = m
        and thresh = thresh, OF C wx wy x(2) y(2) sum p] .
  have sh: "shape A = [nat m, min cx cy]" "shape B = [n - nat m, min cx cy]"
    "shape R = [min cx cy]"
    by (simp_all add: A_def B_def R_def)
  from x y res sh show ?thesis
    by blast
qed

text \<open>The definitions that evaluate an array expression on concrete arrays.\<close>

lemmas array_eval =
  take_idx_def take_cols_def mask_idx_def np_max_def keep_ratio_def map_array_def np_diag_def
  np_dot_def diag_of_def nrows_def ncols_def get1_def get2_def get3_def argsort_def mk1_def
  mk2_def mk3_def slice2_def slice1_def slice_idx_def transpose2_def assign_block_def
  np_zeros2_def np_zeros3_def page_def assign_page_def assign_col_def broadcast_ok_def ndim_def
  Let_def upt_conv_Cons

section \<open>Worked examples\<close>

text \<open>
  The concrete solvers on the matrices of the examples, all diagonal: the identity of
  size 1 and 2, and the covariance of two channels of which the second is dead.
\<close>

lemma pca_diag_contract: "pca_contract pca_diag"
  by (simp add: pca_contract_def pca_diag_def Let_def nrows_def)

lemma eigh_diag_1: "eigh_diag (NdArray [1, 1] [1]) = Inr (NdArray [1] [1], NdArray [1, 1] [1])"
  by (simp add: eigh_diag_def array_eval)

lemma eigh_diag_deficient:
  "eigh_diag (NdArray [2, 2] [1, 0, 0, 0]) = Inr (NdArray [2] [0, 1], NdArray [2, 2] [0, 1, 1, 0])"
  by (simp add: eigh_diag_def array_eval)

lemma eye2_blocks:
  "slice2 (NdArray [2, 2] [1, 0, 0, 1]) 0 (nat 1) 0 (nat 1) = NdArray [1, 1] [1]"
  "slice2 (NdArray [2, 2] [1, 0, 0, 1]) (nat 1) 2 (nat 1) 2 = NdArray [1, 1] [1]"
  by (simp_all add: array_eval)

lemma whiten_nt_1:
  "0 \<le> t \<Longrightarrow> t < 1 \<Longrightarrow> whiten_nt eigh_diag (NdArray [1, 1] [1]) t = Inr (NdArray [1, 1] [1])"
  by (simp add: whiten_nt_def eigh_diag_def array_eval)

lemma projected_eye2:
  "projected (NdArray [1, 1] [1]) (NdArray [1, 1] [1]) (NdArray [2, 2] [1, 0, 0, 1]) =
   NdArray [2, 2] [1, 0, 0, 1]"
  by (simp add: projected_def block_diag_def array_eval lessThan_Suc eval_nat_numeral)

lemma pca_diag_eye2:
  "pca_diag (NdArray [2, 2] [1, 0, 0, 1]) = Inr (NdArray [2, 2] [0, 1, 1, 0], NdArray [2] [1, 1])"
  by (simp add: pca_diag_def array_eval)

text \<open>
  With \<open>X\<close>, \<open>Y\<close> and \<open>lags\<close> omitted, a square two-dimensional covariance and a split
  pass the checks of lines 73 to 82 and reach the two-dimensional case.
\<close>

lemma nt_cca_eye2:
  "nt_cca example_env None None None (Some (NdArray [2, 2] [1, 0, 0, 1])) (Some 1) (Some t) =
   nt_cca_2d eigh_diag pca_diag (NdArray [2, 2] [1, 0, 0, 1]) 1 t"
  by (subst nt_cca.simps) (simp add: truthy_lags_def example_env_def ndim_def)

lemma nt_cca_deficient:
  "nt_cca example_env None None None (Some (NdArray [2, 2] [1, 0, 0, 0])) (Some 1) (Some t) =
   nt_cca_2d eigh_diag pca_diag (NdArray [2, 2] [1, 0, 0, 0]) 1 t"
  by (subst nt_cca.simps) (simp add: truthy_lags_def example_env_def ndim_def)

text \<open>
  The identity covariance of two channels, split one and one: both blocks have rank 1
  and there is one component. With the second channel dead, the block of \<open>Y\<close> is zero,
  its whitening has no column, and there is no component at all.
\<close>

lemma nt_cca_2d_eye2:
  "0 \<le> t \<Longrightarrow> t < 1 \<Longrightarrow>
   nt_cca_2d eigh_diag pca_diag (NdArray [2, 2] [1, 0, 0, 1]) 1 t =
     Inr (NdArray [1, 1] [0], NdArray [1, 1] [sqrt 2], NdArray [1] [0])"
  by (simp add: nt_cca_2d_def whiten_nt_def eigh_diag_def pca_diag_def array_eval)

lemma nt_cca_2d_deficient:
  "0 \<le> t \<Longrightarrow> t < 1 \<Longrightarrow>
   nt_cca_2d eigh_diag pca_diag (NdArray [2, 2] [1, 0, 0, 0]) 1 t =
     Inr (NdArray [1, 0] [], NdArray [1, 0] [], NdArray [0] [])"
  by (simp add: nt_cca_2d_def whiten_nt_def eigh_diag_def pca_diag_def array_eval)

section \<open>Whitening\<close>

text \<open>
  Claim C4. Let \<open>linalg.eigh\<close> return, for a matrix \<open>C\<close> of size \<open>n > 0\<close>, the
  eigenvalues \<open>d\<close> and the eigenvectors \<open>V\<close>. Then \<open>whiten_nt\<close> returns, for every
  \<open>thresh\<close> and so for the default \<open>1e-12\<close> of its signature. With \<open>p\<close> the
  indices of the eigenvalues in descending order of eigenvalue, and \<open>ks\<close> the indices in
  \<open>p\<close> whose eigenvalue has a ratio to the largest eigenvalue above \<open>thresh\<close> (none when
  the largest eigenvalue is zero), the result has \<open>n\<close> rows and one column per index
  in \<open>ks\<close>, in that order: column \<open>j\<close> is the eigenvector \<open>ks ! j\<close> times
  \<open>sqrt (1 / e powr (1 - thresh))\<close> for its eigenvalue \<open>e\<close>, which is
  \<open>V @ diag(sqrt(1 / d))\<close> on the retained, powered eigenvalues. The number of columns
  is the number of retained eigenvalues, at most \<open>n\<close>.
\<close>

theorem whiten_nt_rank_reducing:
  fixes thresh :: real
  assumes "eigh C = Inr (d, V)"
    and "shape d = [n]" and "length (flat d) = n" and "shape V = [n, n]" and "0 < n"
  defines "p \<equiv> rev (argsort (flat d))"
  defines "ks \<equiv> filter (\<lambda>k. keep_ratio (flat d ! k) (Max (set (flat d))) thresh) p"
  shows "whiten_nt eigh C thresh =
           Inr (mk2 n (length ks)
                 (\<lambda>i j. get2 V i (ks ! j) * sqrt (1 / (flat d ! (ks ! j)) powr (1 - thresh)))) \<and>
         distinct p \<and> set p = {0..<n} \<and> sorted (rev (map (\<lambda>k. flat d ! k) p)) \<and>
         set ks = {k. k < n \<and> Max (set (flat d)) \<noteq> 0 \<and> thresh < flat d ! k / Max (set (flat d))} \<and>
         length ks \<le> n"
proof -
  have W: "whiten_nt eigh C thresh =
           Inr (mk2 n (length ks)
                 (\<lambda>i j. get2 V i (ks ! j) * sqrt (1 / (flat d ! (ks ! j)) powr (1 - thresh))))"
    unfolding ks_def p_def using assms(1-5) by (rule whiten_nt_result)
  have p: "distinct p" "set p = {0..<n}" "length p = n"
    using assms(3) by (simp_all add: p_def)
  have "rev (map (\<lambda>k. flat d ! k) p) = map (\<lambda>k. flat d ! k) (argsort (flat d))"
    by (simp add: p_def rev_map)
  then have s: "sorted (rev (map (\<lambda>k. flat d ! k) p))"
    by (simp only: sorted_argsort)
  have ks: "set ks = {k. k < n \<and> Max (set (flat d)) \<noteq> 0 \<and> thresh < flat d ! k / Max (set (flat d))}"
    by (auto simp: ks_def p keep_ratio_def)
  have le: "length ks \<le> n"
    using length_filter_le [of _ p] by (simp add: ks_def p)
  from W p s ks le show ?thesis
    by simp
qed

theorem whiten_nt_rank_reducing_witness:
  "eigh_diag (NdArray [2, 2] [1, 0, 0, 0]) = Inr (NdArray [2] [0, 1], NdArray [2, 2] [0, 1, 1, 0]) \<and>
   shape (NdArray [2] [0, 1]) = [2] \<and> length (flat (NdArray [2] [0, 1])) = 2 \<and>
   shape (NdArray [2, 2] [0, 1, 1, 0]) = [2, 2] \<and> (0::nat) < 2 \<and>
   whiten_nt eigh_diag (NdArray [2, 2] [1, 0, 0, 0]) (1 / 10 ^ 12) = Inr (NdArray [2, 1] [1, 0]) \<and>
   rev (argsort [0, 1]) = [1, 0]"
  using whiten_nt_rank_reducing [where eigh = eigh_diag and C = "NdArray [2, 2] [1, 0, 0, 0]"
      and d = "NdArray [2] [0, 1]" and V = "NdArray [2, 2] [0, 1, 1, 0]" and n = 2
      and thresh = "1 / 10 ^ 12", OF eigh_diag_deficient]
  by (simp add: array_eval eigh_diag_deficient)

text \<open>
  Claim C7, where the code departs from it: called with its default \<open>thresh\<close>,
  \<open>whiten_zca\<close> never returns. Either the decomposition raises, or line 200 adds
  \<open>None\<close> to the singular values and raises TypeError.
\<close>

theorem whiten_zca_default_raises:
  "whiten_zca svd C None = (case svd C of Inl e \<Rightarrow> Inl e | Inr USV \<Rightarrow> Inl TypeError)"
  by (simp add: whiten_zca_def split: sum.splits prod.splits)

section \<open>The two-dimensional case\<close>

text \<open>
  Claim C2. For a square covariance \<open>C\<close> and a split \<open>m\<close>, let \<open>Cxw\<close> and \<open>Cyw\<close> be
  what \<open>whiten_nt\<close> returns for \<open>C[:m, :m]\<close> and \<open>C[m:, m:]\<close>, with \<open>cx\<close> and \<open>cy\<close>
  columns, and let \<open>(V, d)\<close> be what \<open>pca\<close> returns for \<open>W.T @ C @ W\<close>, where \<open>W\<close> is the
  block-diagonal matrix of \<open>Cxw\<close> and \<open>Cyw\<close> with zero off-diagonal blocks. Then the
  code returns \<open>A = Cxw @ V[:cx, :N] * sqrt 2\<close>, \<open>B = Cyw @ V[cx:, :N] * sqrt 2\<close> and
  \<open>R = d[:N] - 1\<close> with \<open>N = min cx cy\<close>, entry by entry. As everywhere in numpy, a
  slice stops at the end of the array, so the columns of \<open>A\<close> and \<open>B\<close> are also at most
  those of \<open>V\<close> and the length of \<open>R\<close> at most that of \<open>d\<close>.
\<close>

theorem nt_cca_2d_formula:
  assumes "shape C = [n, n]"
    and "whiten_nt eigh (slice2 C 0 (slice_idx n m) 0 (slice_idx n m)) thresh = Inr Cxw"
    and "whiten_nt eigh (slice2 C (slice_idx n m) n (slice_idx n m) n) thresh = Inr Cyw"
    and "shape Cxw = [rx, cx]" and "shape Cyw = [ry, cy]" and "rx + ry = n"
    and "pca (projected Cxw Cyw C) = Inr (V, d)"
    and "shape V = [cx + cy, cv]" and "shape d = [ld]"
  shows "nt_cca_2d eigh pca C m thresh =
     Inr (mk2 rx (min (min cx cy) cv) (\<lambda>i j. (\<Sum>k<cx. get2 Cxw i k * get2 V k j) * sqrt 2),
          mk2 ry (min (min cx cy) cv)
            (\<lambda>i j. (\<Sum>k<cy. get2 Cyw i k * get2 V (cx + k) j) * sqrt 2),
          mk1 (min (min cx cy) ld) (\<lambda>j. get1 d j - 1))"
  using assms by (rule nt_cca_2d_result)

theorem nt_cca_2d_formula_witness:
  "shape (NdArray [2, 2] [1, 0, 0, 1]) = [2, 2] \<and>
   whiten_nt eigh_diag (slice2 (NdArray [2, 2] [1, 0, 0, 1]) 0 (slice_idx 2 1) 0 (slice_idx 2 1))
     (1 / 10 ^ 12) = Inr (NdArray [1, 1] [1]) \<and>
   whiten_nt eigh_diag (slice2 (NdArray [2, 2] [1, 0, 0, 1]) (slice_idx 2 1) 2 (slice_idx 2 1) 2)
     (1 / 10 ^ 12) = Inr (NdArray [1, 1] [1]) \<and>
   shape (NdArray [1, 1] [1]) = [1, 1] \<and> (1::nat) + 1 = 2 \<and>
   pca_diag (projected (NdArray [1, 1] [1]) (NdArray [1, 1] [1]) (NdArray [2, 2] [1, 0, 0, 1])) =
     Inr (NdArray [2, 2] [0, 1, 1, 0], NdArray [2] [1, 1]) \<and>
   shape (NdArray [2, 2] [0, 1, 1, 0]) = [1 + 1, 2] \<and> shape (NdArray [2] [1, 1]) = [2] \<and>
   nt_cca_2d eigh_diag pca_diag (NdArray [2, 2] [1, 0, 0, 1]) 1 (1 / 10 ^ 12) =
     Inr (NdArray [1, 1] [0], NdArray [1, 1] [sqrt 2], NdArray [1] [0])"
proof -
  let ?C = "NdArray [2, 2] [1, 0, 0, 1]" and ?I = "NdArray [1, 1] [1]"
  have sx: "slice2 ?C 0 (slice_idx 2 1) 0 (slice_idx 2 1) = ?I"
    and sy: "slice2 ?C (slice_idx 2 1) 2 (slice_idx 2 1) 2 = ?I"
    by (simp_all add: array_eval)
  have wx: "whiten_nt eigh_diag (slice2 ?C 0 (slice_idx 2 1) 0 (slice_idx 2 1)) (1 / 10 ^ 12) =
      Inr ?I"
    and wy: "whiten_nt eigh_diag (slice2 ?C (slice_idx 2 1) 2 (slice_idx 2 1) 2) (1 / 10 ^ 12) =
      Inr ?I"
    unfolding sx sy using whiten_nt_1 [of "1 / 10 ^ 12"] by simp_all
  have pc: "pca_diag (projected ?I ?I ?C) = Inr (NdArray [2, 2] [0, 1, 1, 0], NdArray [2] [1, 1])"
    by (simp only: projected_eye2 pca_diag_eye2)
  have "nt_cca_2d eigh_diag pca_diag ?C 1 (1 / 10 ^ 12) =
     Inr (mk2 1 (min (min 1 1) 2)
            (\<lambda>i j. (\<Sum>k<1. get2 ?I i k * get2 (NdArray [2, 2] [0, 1, 1, 0]) k j) * sqrt 2),
          mk2 1 (min (min 1 1) 2)
            (\<lambda>i j. (\<Sum>k<1. get2 ?I i k * get2 (NdArray [2, 2] [0, 1, 1, 0]) (1 + k) j) * sqrt 2),
          mk1 (min (min 1 1) 2) (\<lambda>j. get1 (NdArray [2] [1, 1]) j - 1))"
    by (rule nt_cca_2d_formula [where eigh = eigh_diag and pca = pca_diag and C = ?C and n = 2
          and m = 1 and thresh = "1 / 10 ^ 12" and Cxw = ?I and Cyw = ?I and rx = 1 and cx = 1
          and ry = 1 and cy = 1 and V = "NdArray [2, 2] [0, 1, 1, 0]" and d = "NdArray [2] [1, 1]"
          and cv = 2 and ld = 2, OF _ wx wy _ _ _ pc])
      simp_all
  then have "nt_cca_2d eigh_diag pca_diag ?C 1 (1 / 10 ^ 12) =
     Inr (NdArray [1, 1] [0], NdArray [1, 1] [sqrt 2], NdArray [1] [0])"
    by (simp add: array_eval)
  with wx wy pc show ?thesis
    by simp
qed

text \<open>
  Claim C6. For a square covariance of size \<open>n\<close> and a split \<open>0 < m < n\<close>, when the
  eigen-solver returns a full decomposition of both diagonal blocks and \<open>pca\<close> keeps its
  contract, the code returns \<open>A\<close>, \<open>B\<close> and \<open>R\<close> with \<open>N\<close> columns, \<open>N\<close> columns and
  \<open>N\<close> entries, where \<open>N \<le> min m (n - m)\<close>; and \<open>N = min m (n - m)\<close> when every
  eigenvalue of both blocks passes the threshold.
\<close>

theorem nt_cca_2d_rank_bound:
  fixes thresh :: real
  assumes "shape C = [n, n]" and "0 < m" and "m < int n"
    and "eigh (slice2 C 0 (nat m) 0 (nat m)) = Inr (dx, Vx)"
    and "shape dx = [nat m]" and "length (flat dx) = nat m"
    and "shape Vx = [nat m, nat m]"
    and "eigh (slice2 C (nat m) n (nat m) n) = Inr (dy, Vy)"
    and "shape dy = [n - nat m]" and "length (flat dy) = n - nat m"
    and "shape Vy = [n - nat m, n - nat m]"
    and "pca_contract pca"
  shows "\<exists>A B R N.
      nt_cca_2d eigh pca C m thresh = Inr (A, B, R) \<and>
      shape A = [nat m, N] \<and> shape B = [n - nat m, N] \<and> shape R = [N] \<and>
      int N \<le> min m (int n - m) \<and>
      (list_all (\<lambda>x. keep_ratio x (Max (set (flat dx))) thresh) (flat dx) \<and>
       list_all (\<lambda>x. keep_ratio x (Max (set (flat dy))) thresh) (flat dy) \<longrightarrow>
       int N = min m (int n - m))"
proof -
  from nt_cca_2d_shapes [where eigh = eigh and pca = pca and thresh = thresh, OF assms]
  obtain cx cy A B R where
    c: "cx \<le> nat m" "cy \<le> n - nat m"
      "list_all (\<lambda>x. keep_ratio x (Max (set (flat dx))) thresh) (flat dx) \<longrightarrow> cx = nat m"
      "list_all (\<lambda>x. keep_ratio x (Max (set (flat dy))) thresh) (flat dy) \<longrightarrow> cy = n - nat m"
    and r: "nt_cca_2d eigh pca C m thresh = Inr (A, B, R)"
      "shape A = [nat m, min cx cy]" "shape B = [n - nat m, min cx cy]" "shape R = [min cx cy]"
    by blast
  have le: "int (min cx cy) \<le> min m (int n - m)"
    using c(1,2) assms(2,3) by linarith
  have eq: "int (min cx cy) = min m (int n - m)" if "cx = nat m" "cy = n - nat m"
    using that assms(2,3) by linarith
  from r le eq c(3,4) show ?thesis
    by blast
qed

theorem nt_cca_2d_rank_bound_witness:
  "shape (NdArray [2, 2] [1, 0, 0, 1]) = [2, 2] \<and> (0::int) < 1 \<and> (1::int) < int 2 \<and>
   eigh_diag (slice2 (NdArray [2, 2] [1, 0, 0, 1]) 0 (nat 1) 0 (nat 1)) =
     Inr (NdArray [1] [1], NdArray [1, 1] [1]) \<and>
   eigh_diag (slice2 (NdArray [2, 2] [1, 0, 0, 1]) (nat 1) 2 (nat 1) 2) =
     Inr (NdArray [1] [1], NdArray [1, 1] [1]) \<and>
   shape (NdArray [1] [1]) = [nat 1] \<and> length (flat (NdArray [1] [1])) = nat 1 \<and>
   shape (NdArray [1, 1] [1]) = [nat 1, nat 1] \<and> 2 - nat 1 = nat 1 \<and>
   pca_contract pca_diag \<and>
   list_all (\<lambda>x. keep_ratio x (Max (set [1])) (1 / 10 ^ 12)) [1] \<and>
   (\<exists>A B R. nt_cca_2d eigh_diag pca_diag (NdArray [2, 2] [1, 0, 0, 1]) 1 (1 / 10 ^ 12) =
      Inr (A, B, R) \<and> shape A = [1, 1] \<and> shape B = [1, 1] \<and> shape R = [1])"
proof -
  let ?C = "NdArray [2, 2] [1, 0, 0, 1]"
  let ?d = "NdArray [1] [1]" and ?V = "NdArray [1, 1] [1]"
  have ex: "eigh_diag (slice2 ?C 0 (nat 1) 0 (nat 1)) = Inr (?d, ?V)"
    and ey: "eigh_diag (slice2 ?C (nat 1) 2 (nat 1) 2) = Inr (?d, ?V)"
    by (simp_all only: eye2_blocks eigh_diag_1)
  have full: "list_all (\<lambda>x. keep_ratio x (Max (set [1])) (1 / 10 ^ 12)) [1]"
    by (simp add: keep_ratio_def)
  from nt_cca_2d_rank_bound [where eigh = eigh_diag and pca = pca_diag and C = ?C and n = 2
      and m = 1 and thresh = "1 / 10 ^ 12" and dx = ?d and Vx = ?V and dy = ?d and Vy = ?V,
      OF _ _ _ ex _ _ _ ey _ _ _ pca_diag_contract]
  obtain A B R N where
    r: "nt_cca_2d eigh_diag pca_diag ?C 1 (1 / 10 ^ 12) = Inr (A, B, R)"
      "shape A = [nat 1, N]" "shape B = [2 - nat 1, N]" "shape R = [N]"
    and eq: "list_all (\<lambda>x. keep_ratio x (Max (set (flat ?d))) (1 / 10 ^ 12)) (flat ?d) \<and>
       list_all (\<lambda>x. keep_ratio x (Max (set (flat ?d))) (1 / 10 ^ 12)) (flat ?d) \<longrightarrow>
       int N = min 1 (int 2 - 1)"
    by auto
  from eq full have "N = 1"
    by simp
  with r have "\<exists>A B R. nt_cca_2d eigh_diag pca_diag ?C 1 (1 / 10 ^ 12) = Inr (A, B, R) \<and>
      shape A = [1, 1] \<and> shape B = [1, 1] \<and> shape R = [1]"
    by auto
  with ex ey full pca_diag_contract show ?thesis
    by simp
qed

text \<open>
  Claim C10, as amended. Under the hypotheses of C6, when the largest eigenvalue of
  each diagonal block is positive and \<open>thresh < 1\<close>, \<open>whiten_nt\<close> returns a transform of
  at least one column for each block, and the code returns at least one component:
  \<open>N \<ge> 1\<close> and \<open>R\<close> is not empty.
\<close>

theorem nt_cca_2d_at_least_one_component:
  fixes thresh :: real
  assumes "shape C = [n, n]" and "0 < m" and "m < int n"
    and "eigh (slice2 C 0 (nat m) 0 (nat m)) = Inr (dx, Vx)"
    and "shape dx = [nat m]" and "length (flat dx) = nat m"
    and "shape Vx = [nat m, nat m]"
    and "eigh (slice2 C (nat m) n (nat m) n) = Inr (dy, Vy)"
    and "shape dy = [n - nat m]" and "length (flat dy) = n - nat m"
    and "shape Vy = [n - nat m, n - nat m]"
    and "pca_contract pca"
    and "0 < Max (set (flat dx))" and "0 < Max (set (flat dy))" and "thresh < 1"
  shows "\<exists>Cxw Cyw cx cy A B R N.
      whiten_nt eigh (slice2 C 0 (nat m) 0 (nat m)) thresh = Inr Cxw \<and>
      shape Cxw = [nat m, cx] \<and> 1 \<le> cx \<and>
      whiten_nt eigh (slice2 C (nat m) n (nat m) n) thresh = Inr Cyw \<and>
      shape Cyw = [n - nat m, cy] \<and> 1 \<le> cy \<and>
      nt_cca_2d eigh pca C m thresh = Inr (A, B, R) \<and>
      shape A = [nat m, N] \<and> shape B = [n - nat m, N] \<and> shape R = [N] \<and> 1 \<le> N"
proof -
  from nt_cca_2d_shapes [where eigh = eigh and pca = pca and thresh = thresh, OF assms(1-12)]
  obtain Cxw Cyw cx cy A B R where
    w: "whiten_nt eigh (slice2 C 0 (nat m) 0 (nat m)) thresh = Inr Cxw" "shape Cxw = [nat m, cx]"
      "whiten_nt eigh (slice2 C (nat m) n (nat m) n) thresh = Inr Cyw"
      "shape Cyw = [n - nat m, cy]"
    and c: "0 < Max (set (flat dx)) \<and> thresh < 1 \<longrightarrow> 1 \<le> cx"
      "0 < Max (set (flat dy)) \<and> thresh < 1 \<longrightarrow> 1 \<le> cy"
    and r: "nt_cca_2d eigh pca C m thresh = Inr (A, B, R)"
      "shape A = [nat m, min cx cy]" "shape B = [n - nat m, min cx cy]" "shape R = [min cx cy]"
    by blast
  from c assms(13-15) have 1: "1 \<le> cx" "1 \<le> cy" "1 \<le> min cx cy"
    by simp_all
  from w r 1 show ?thesis
    by blast
qed

theorem nt_cca_2d_at_least_one_component_witness:
  "shape (NdArray [2, 2] [1, 0, 0, 1]) = [2, 2] \<and> (0::int) < 1 \<and> (1::int) < int 2 \<and>
   eigh_diag (slice2 (NdArray [2, 2] [1, 0, 0, 1]) 0 (nat 1) 0 (nat 1)) =
     Inr (NdArray [1] [1], NdArray [1, 1] [1]) \<and>
   eigh_diag (slice2 (NdArray [2, 2] [1, 0, 0, 1]) (nat 1) 2 (nat 1) 2) =
     Inr (NdArray [1] [1], NdArray [1, 1] [1]) \<and>
   shape (NdArray [1] [1]) = [nat 1] \<and> length (flat (NdArray [1] [1])) = nat 1 \<and>
   shape (NdArray [1, 1] [1]) = [nat 1, nat 1] \<and> 2 - nat 1 = nat 1 \<and>
   pca_contract pca_diag \<and>
   (0::real) < Max (set (flat (NdArray [1] [1]))) \<and> (1::real) / 10 ^ 12 < 1 \<and>
   (\<exists>A B R N. nt_cca_2d eigh_diag pca_diag (NdArray [2, 2] [1, 0, 0, 1]) 1 (1 / 10 ^ 12) =
      Inr (A, B, R) \<and> shape A = [1, N] \<and> shape B = [1, N] \<and> shape R = [N] \<and> 1 \<le> N)"
proof -
  let ?C = "NdArray [2, 2] [1, 0, 0, 1]"
  let ?d = "NdArray [1] [1]" and ?V = "NdArray [1, 1] [1]"
  have ex: "eigh_diag (slice2 ?C 0 (nat 1) 0 (nat 1)) = Inr (?d, ?V)"
    and ey: "eigh_diag (slice2 ?C (nat 1) 2 (nat 1) 2) = Inr (?d, ?V)"
    by (simp_all only: eye2_blocks eigh_diag_1)
  have pos: "(0::real) < Max (set (flat ?d))"
    by simp
  from nt_cca_2d_at_least_one_component [where eigh = eigh_diag and pca = pca_diag and C = ?C
      and n = 2 and m = 1 and thresh = "1 / 10 ^ 12" and dx = ?d and Vx = ?V and dy = ?d
      and Vy = ?V, OF _ _ _ ex _ _ _ ey _ _ _ pca_diag_contract pos pos]
  have "\<exists>A B R N. nt_cca_2d eigh_diag pca_diag ?C 1 (1 / 10 ^ 12) = Inr (A, B, R) \<and>
      shape A = [1, N] \<and> shape B = [1, N] \<and> shape R = [N] \<and> 1 \<le> N"
    by auto
  with ex ey pos pca_diag_contract show ?thesis
    by simp
qed

text \<open>
  Claim C10 as stated asks the largest eigenvalue of the input to be positive. The
  covariance of two channels of which the second is dead has the eigenvalues 0 and 1,
  and the default threshold is below 1; but its block of \<open>Y\<close> is zero, whose whitening
  has no column: the code returns no component and an empty \<open>R\<close>.
\<close>

theorem nt_cca_2d_dead_block_no_component:
  "eigh_diag (NdArray [2, 2] [1, 0, 0, 0]) = Inr (NdArray [2] [0, 1], NdArray [2, 2] [0, 1, 1, 0]) \<and>
   Max (set (flat (NdArray [2] [0, 1]))) = 1 \<and> (1::real) / 10 ^ 12 < 1 \<and>
   nt_cca_2d eigh_diag pca_diag (NdArray [2, 2] [1, 0, 0, 0]) 1 (1 / 10 ^ 12) =
     Inr (NdArray [1, 0] [], NdArray [1, 0] [], NdArray [0] [])"
  using nt_cca_2d_deficient [of "1 / 10 ^ 12"] by (simp add: eigh_diag_deficient)

section \<open>Zero-padding of the pages\<close>

text \<open>
  Line 95 assigns a page's scores to a whole column of \<open>R\<close>. When the page has fewer
  scores than the column has entries the assignment raises, unless the page has exactly
  one score, which then fills the column.
\<close>

lemma assign_col_raises:
  "shape RR ! 0 \<noteq> shape R ! 0 \<Longrightarrow> shape RR ! 0 \<noteq> 1 \<Longrightarrow> assign_col R k RR = Inl ValueError"
  by (simp add: assign_col_def broadcast_ok_def)

lemma assign_col_broadcasts:
  assumes "shape R = [n, c]" and "shape RR = [1]" and "i < n" and "k < c"
  shows "\<exists>R1. assign_col R k RR = Inr R1 \<and> get2 R1 i k = get1 RR 0"
  using assms by (auto simp: assign_col_def broadcast_ok_def)

text \<open>
  Claim C1, at an input where the code departs from it: a stack of two pages, the
  identity and the covariance with a dead second channel, split one and one. The
  outputs are allocated for one component. The second page has none, and line 95
  assigns its empty \<open>RR\<close> to the whole column \<open>R[:, 1]\<close> of length one: numpy cannot
  broadcast it and raises ValueError. Lines 93 and 94 assign to the top-left corner
  and would have left the column of zeros.
\<close>

theorem nt_cca_3d_lower_rank_page_raises:
  "nt_cca example_env None None None (Some (NdArray [2, 2, 2] [1, 1, 0, 0, 0, 0, 1, 0]))
     (Some 1) None = Inl ValueError"
proof -
  have r0: "nt_cca example_env None None None (Some (NdArray [2, 2] [1, 0, 0, 1])) (Some 1)
        (Some t) = Inr (NdArray [1, 1] [0], NdArray [1, 1] [sqrt 2], NdArray [1] [0])"
    if "0 \<le> t" "t < 1" for t
    using that by (simp only: nt_cca_eye2 nt_cca_2d_eye2)
  have r1: "nt_cca example_env None None None (Some (NdArray [2, 2] [1, 0, 0, 0])) (Some 1)
        (Some t) = Inr (NdArray [1, 0] [], NdArray [1, 0] [], NdArray [0] [])"
    if "0 \<le> t" "t < 1" for t
    using that by (simp only: nt_cca_deficient nt_cca_2d_deficient)
  show ?thesis
    by (subst nt_cca.simps) (simp add: truthy_lags_def array_eval r0 r1)
qed

section \<open>The checks of the entry point\<close>

text \<open>
  The truth value of \<open>lags\<close>, and the five checks of lines 73 to 82 with \<open>X\<close> and \<open>Y\<close>
  omitted, in the order of the code.
\<close>

lemma truthy_lags_cases:
  "truthy_lags None = Inr False"
  "truthy_lags (Some (LagsList (x # xs))) = Inr True"
  "truthy_lags (Some (LagsArray [x])) = Inr (x \<noteq> 0)"
  "truthy_lags (Some (LagsArray (x # y # xs))) = Inl ValueError"
  by (simp_all add: truthy_lags_def)

lemma nt_cca_covariance_checks:
  "nt_cca env None None lags None m thresh =
     Inl (RuntimeError ''covariance matrix should be defined'')"
  "nt_cca env None None lags (Some c) None thresh = Inl (RuntimeError ''m should be defined'')"
  "2 \<le> ndim c \<Longrightarrow> shape c ! 0 \<noteq> shape c ! 1 \<Longrightarrow>
   nt_cca env None None lags (Some c) (Some mm) thresh =
     Inl (RuntimeError ''covariance matrix should be square'')"
  "2 \<le> ndim c \<Longrightarrow> shape c ! 0 = shape c ! 1 \<Longrightarrow> truthy_lags lags = Inr True \<Longrightarrow>
   nt_cca env None None lags (Some c) (Some mm) thresh =
     Inl (RuntimeError ''only covariance should be defined at this point'')"
  "3 < ndim c \<Longrightarrow> shape c ! 0 = shape c ! 1 \<Longrightarrow> truthy_lags lags = Inr False \<Longrightarrow>
   nt_cca env None None lags (Some c) (Some mm) thresh =
     Inl (RuntimeError ''covariance should be 3D at most'')"
  by (subst nt_cca.simps, simp add: Let_def)+

text \<open>
  Claim C5. When exactly one of \<open>X\<close> and \<open>Y\<close> is given, \<open>nt_cca\<close> raises the
  AttributeError of line 65 whatever \<open>lags\<close>, \<open>C\<close>, \<open>m\<close> and \<open>thresh\<close> are, and
  whatever the collaborators would do: none of them is called.
\<close>

theorem nt_cca_one_of_X_Y:
  "(X = None) \<noteq> (Y = None) \<Longrightarrow>
   nt_cca env X Y lags C m thresh =
     Inl (AttributeError ''Either *both* X and Y should be defined, or C!'')"
  by (subst nt_cca.simps) (auto simp: Let_def)

theorem nt_cca_one_of_X_Y_witness:
  "(Some (NdArray [1, 1] [1]) = None) \<noteq> ((None :: ndarray option) = None) \<and>
   nt_cca example_env (Some (NdArray [1, 1] [1])) None None None None None =
     Inl (AttributeError ''Either *both* X and Y should be defined, or C!'')"
  using nt_cca_one_of_X_Y [of "Some (NdArray [1, 1] [1])" None example_env None None None None]
  by simp

text \<open>
  Claim C9, as amended. When \<open>C\<close> is one-dimensional, \<open>X\<close> and \<open>Y\<close> are omitted and
  \<open>m\<close> is given, \<open>nt_cca\<close> raises IndexError at the squareness check of line 77,
  whatever \<open>lags\<close> is: the checks of lines 79 and 81 are not reached.
\<close>

theorem nt_cca_1d_covariance:
  "ndim c = 1 \<Longrightarrow> nt_cca env None None lags (Some c) (Some m) thresh = Inl IndexError"
  by (subst nt_cca.simps) (simp add: Let_def)

theorem nt_cca_1d_covariance_witness:
  "ndim (NdArray [3] [1, 2, 3]) = 1 \<and>
   nt_cca example_env None None (Some (LagsList [1])) (Some (NdArray [3] [1, 2, 3])) (Some 1) None
     = Inl IndexError"
  using nt_cca_1d_covariance [of "NdArray [3] [1, 2, 3]" example_env "Some (LagsList [1])" 1 None]
  by (simp add: ndim_def)

text \<open>
  Claim C9 as stated does not mention \<open>m\<close>. With \<open>m\<close> omitted, the check of line 75
  comes first and a one-dimensional \<open>C\<close> raises its RuntimeError, not IndexError.
\<close>

theorem nt_cca_1d_without_m:
  "nt_cca example_env None None None (Some (NdArray [3] [1, 2, 3])) None None =
     Inl (RuntimeError ''m should be defined'') \<and>
   nt_cca example_env None None None (Some (NdArray [3] [1, 2, 3])) None None \<noteq> Inl IndexError"
  by (subst nt_cca.simps, subst nt_cca.simps) (simp add: Let_def)

text \<open>
  Claim C3, at the input where the code departs from it: \<open>lags = np.array([0])\<close> given
  together with \<open>C\<close> and \<open>m\<close>. The array has one element, 0, so its truth value is
  false, the check of line 79 passes, and the call returns the CCA of \<open>C\<close>.
\<close>

theorem nt_cca_lags_zero_accepted:
  "nt_cca example_env None None (Some (LagsArray [0])) (Some (NdArray [2, 2] [1, 0, 0, 1]))
     (Some 1) None =
   Inr (NdArray [1, 1] [0], NdArray [1, 1] [sqrt 2], NdArray [1] [0])"
  by (subst nt_cca.simps)
     (simp add: truthy_lags_def example_env_def ndim_def nt_cca_2d_eye2)

end
